theory Spec2Isabelle
  imports Main "HOL-Library.Sublist"
begin

section \<open>Collaborators of \<^verbatim>\<open>app/components/expo_image/index.tsx\<close>\<close>

text \<open>
  The platform's \<^verbatim>\<open>URL\<close> objects. The component reads two of their properties,
  \<^verbatim>\<open>origin\<close> and \<^verbatim>\<open>pathname\<close>; \<^verbatim>\<open>protocol\<close> (the scheme and its colon) and \<^verbatim>\<open>host\<close>
  (the host name, and the port when it is not the default of the scheme) are the
  properties that say which scheme, host and port a URL has. The constructor
  \<^verbatim>\<open>new URL(s)\<close> is not part of the repository: it is a parameter of the model, a function
  from strings to parsed URLs that gives \<open>None\<close> where the constructor throws.
\<close>

record url =
  protocol :: string
  host :: string
  origin :: string
  pathname :: string



type_synonym url_parser = "string \<Rightarrow> url option"

datatype js_error = TypeError

definition new_URL :: "url_parser \<Rightarrow> string \<Rightarrow> js_error + url" where
  "new_URL parse s = (case parse s of None \<Rightarrow> Inl TypeError | Some u \<Rightarrow> Inr u)"

text \<open>\<^verbatim>\<open>s.startsWith(p)\<close> on strings.\<close>

definition startsWith :: "string \<Rightarrow> string \<Rightarrow> bool" where
  "startsWith s p = prefix p s"

section \<open>\<^verbatim>\<open>shouldAttachServerAuthHeaders\<close> (lines 20-38)\<close>

text \<open>
  The body of the \<^verbatim>\<open>try\<close> block, lines 26-33: both constructor calls may throw, the
  request URI first.
\<close>

definition shouldAttachServerAuthHeaders_try :: "url_parser \<Rightarrow> string \<Rightarrow> string \<Rightarrow> js_error + bool" where
  "shouldAttachServerAuthHeaders_try parse uri serverUrl =
     (case new_URL parse uri of
        Inl e \<Rightarrow> Inl e
      | Inr requestUrl \<Rightarrow>
          (case new_URL parse serverUrl of
             Inl e \<Rightarrow> Inl e
           | Inr serverBaseUrl \<Rightarrow>
               if origin requestUrl \<noteq> origin serverBaseUrl then Inr False
               else Inr (startsWith (pathname requestUrl) ''/api/v4/'')))"

text \<open>
  The whole function. \<^verbatim>\<open>!uri\<close> holds of \<^verbatim>\<open>undefined\<close> (\<open>None\<close>) and of the empty string;
  the \<^verbatim>\<open>catch\<close> clause turns every exception of the block into \<^verbatim>\<open>false\<close>. The result is
  the outcome of the call: \<open>Inl\<close> would be an exception that leaves the function.
\<close>

definition shouldAttachServerAuthHeaders :: "url_parser \<Rightarrow> string option \<Rightarrow> string \<Rightarrow> js_error + bool" where
  "shouldAttachServerAuthHeaders parse uri serverUrl =
     (case uri of
        None \<Rightarrow> Inr False
      | Some u \<Rightarrow>
          if u = [] then Inr False
          else (case shouldAttachServerAuthHeaders_try parse u serverUrl of
                  Inl e \<Rightarrow> Inr False
                | Inr b \<Rightarrow> Inr b))"

section \<open>Image sources and props\<close>

text \<open>
  An \<^verbatim>\<open>ImageSource\<close> object. The component reads \<^verbatim>\<open>uri\<close> and \<^verbatim>\<open>headers\<close> and writes
  \<^verbatim>\<open>headers\<close>, \<^verbatim>\<open>cacheKey\<close> and \<^verbatim>\<open>cachePath\<close>; every other property of the object
  (\<^verbatim>\<open>width\<close>, \<^verbatim>\<open>blurhash\<close>, ...) is carried by the spread and kept in \<open>rest\<close>, by name.
  A property that is absent and a property that is \<^verbatim>\<open>undefined\<close> are both \<open>None\<close>.
\<close>

type_synonym headers = "string \<rightharpoonup> string"

record 'v image_source =
  uri :: "string option"
  headers :: "headers option"
  cacheKey :: "string option"
  cachePath :: "string option"
  rest :: "string \<rightharpoonup> 'v"

text \<open>
  The \<^verbatim>\<open>source\<close> prop as the component uses it: a number (the handle of a bundled asset),
  an object whose \<^verbatim>\<open>uri\<close> it reads, or nothing. The \<^verbatim>\<open>placeholder\<close> prop may be a string
  as well (line 83).
\<close>

datatype 'v source_prop =
    SourceUndefined
  | SourceNull
  | SourceNumber int
  | SourceObject "'v image_source"

datatype 'v placeholder_prop =
    PlaceholderUndefined
  | PlaceholderNull
  | PlaceholderNumber int
  | PlaceholderString string
  | PlaceholderObject "'v image_source"

datatype cache_policy = CacheNone | CacheDisk | CacheMemory | CacheMemoryDisk

text \<open>
  \<^verbatim>\<open>ImageProps\<close>, and \<^verbatim>\<open>ExpoImageProps\<close> (lines 12-14), which adds \<^verbatim>\<open>id\<close>. The type
  \<^verbatim>\<open>ExpoImagePropsMemoryOnly\<close> is the case \<open>cachePolicy = Some CacheMemory\<close>, where \<^verbatim>\<open>id\<close>
  is optional.
\<close>

record 'v image_props =
  source :: "'v source_prop"
  placeholder :: "'v placeholder_prop"
  cachePolicy :: "cache_policy option"

record 'v expo_image_props = "'v image_props" +
  id_prop :: "string option"

text \<open>
  What the component takes from its environment: the platform's \<^verbatim>\<open>URL\<close> constructor,
  the hook \<^verbatim>\<open>useServerUrl()\<close>, the outcome of
  \<^verbatim>\<open>NetworkManager.getClient(serverUrl).getRequestHeaders('GET')\<close>, which may throw, and
  \<^verbatim>\<open>urlSafeBase64Encode\<close> of \<^verbatim>\<open>@utils/security\<close>.
\<close>

record environment =
  parseURL :: url_parser
  useServerUrl :: string
  getRequestHeaders :: "js_error + headers"
  urlSafeBase64Encode :: "string \<Rightarrow> string"

section \<open>\<^verbatim>\<open>ExpoImage\<close> (lines 40-114)\<close>

text \<open>The truthiness test of \<^verbatim>\<open>if (id)\<close>: the string when it is defined and not empty.\<close>

definition truthy :: "string option \<Rightarrow> string option" where
  "truthy s = (case s of None \<Rightarrow> None | Some x \<Rightarrow> if x = [] then None else Some x)"

text \<open>Lines 42-49: the headers of the server's client, \<^verbatim>\<open>undefined\<close> when the call throws.\<close>

definition requestHeaders_memo :: "js_error + headers \<Rightarrow> headers option" where
  "requestHeaders_memo outcome = (case outcome of Inl e \<Rightarrow> None | Inr h \<Rightarrow> Some h)"

text \<open>The spread \<^verbatim>\<open>{...h}\<close> of a headers object that may be \<^verbatim>\<open>undefined\<close>.\<close>

definition spread_headers :: "headers option \<Rightarrow> headers" where
  "spread_headers h = (case h of None \<Rightarrow> Map.empty | Some m \<Rightarrow> m)"

text \<open>\<^verbatim>\<open>delete h?.Accept\<close> (lines 63 and 88).\<close>

definition delete_Accept :: "headers option \<Rightarrow> headers option" where
  "delete_Accept h = (case h of None \<Rightarrow> None | Some m \<Rightarrow> Some (m(''Accept'' := None)))"

text \<open>
  Lines 62-63 and 87-88, the same two statements for the source and the placeholder:
  \<^verbatim>\<open>attach && requestHeaders ? {...requestHeaders, ...callerHeaders} : callerHeaders\<close>,
  then the deletion of \<^verbatim>\<open>Accept\<close>. Where the caller's headers are kept, the deletion
  acts on the caller's own object; the function gives the headers that result.
\<close>

definition mergeHeaders :: "bool \<Rightarrow> headers option \<Rightarrow> headers option \<Rightarrow> headers option" where
  "mergeHeaders attach requestHeaders callerHeaders =
     delete_Accept
       (case requestHeaders of
          None \<Rightarrow> callerHeaders
        | Some base \<Rightarrow>
            if attach then Some (base ++ spread_headers callerHeaders) else callerHeaders)"

text \<open>Whether a headers object, which may be \<^verbatim>\<open>undefined\<close>, has an entry for a key.\<close>

definition has_header :: "headers option \<Rightarrow> string \<Rightarrow> bool" where
  "has_header h k = (case h of None \<Rightarrow> False | Some m \<Rightarrow> m k \<noteq> None)"

text \<open>The cache keys of lines 70 and 95: \<^verbatim>\<open>id\<close> and \<^verbatim>\<open>`${id}-thumb`\<close>.\<close>

definition primaryCacheKey :: "string \<Rightarrow> string" where
  "primaryCacheKey i = i"

definition placeholderCacheKey :: "string \<Rightarrow> string" where
  "placeholderCacheKey i = i @ ''-thumb''"

text \<open>
  The optional reads \<^verbatim>\<open>props.source?.uri\<close> and \<^verbatim>\<open>props.source?.headers\<close>, and the same on
  the placeholder: the property of an object, \<^verbatim>\<open>undefined\<close> on anything else.
\<close>

definition source_field :: "('v image_source \<Rightarrow> 'a option) \<Rightarrow> 'v source_prop \<Rightarrow> 'a option" where
  "source_field f v = (case v of SourceObject obj \<Rightarrow> f obj | _ \<Rightarrow> None)"

definition placeholder_field ::
  "('v image_source \<Rightarrow> 'a option) \<Rightarrow> 'v placeholder_prop \<Rightarrow> 'a option" where
  "placeholder_field f v = (case v of PlaceholderObject obj \<Rightarrow> f obj | _ \<Rightarrow> None)"

text \<open>The spread \<^verbatim>\<open>{...props.source}\<close> of a source that is not a number.\<close>

definition empty_object :: "'v image_source" where
  "empty_object = \<lparr>uri = None, headers = None, cacheKey = None, cachePath = None, rest = Map.empty\<rparr>"

fun spread_source :: "'v source_prop \<Rightarrow> 'v image_source" where
  "spread_source (SourceObject obj) = obj"
| "spread_source _ = empty_object"

text \<open>Lines 57-79, a function of the dependencies of the memo.\<close>

definition ExpoImage_source ::
  "url_parser \<Rightarrow> string option \<Rightarrow> 'v source_prop \<Rightarrow> string \<Rightarrow> headers option \<Rightarrow> string \<Rightarrow>
   js_error + 'v source_prop" where
  "ExpoImage_source parse id' src cachePath' requestHeaders serverUrl =
     (case src of
        SourceNumber n \<Rightarrow> Inr (SourceNumber n)
      | _ \<Rightarrow>
          (case shouldAttachServerAuthHeaders parse (source_field uri src) serverUrl of
             Inl e \<Rightarrow> Inl e
           | Inr attach \<Rightarrow>
               let sourceHeaders = mergeHeaders attach requestHeaders (source_field headers src)
               in (case truthy id' of
                     Some i \<Rightarrow>
                       Inr (SourceObject ((spread_source src)
                         \<lparr>headers := sourceHeaders,
                          cacheKey := Some (primaryCacheKey i),
                          cachePath := Some cachePath'\<rparr>))
                   | None \<Rightarrow>
                       Inr (SourceObject ((spread_source src)\<lparr>headers := sourceHeaders\<rparr>)))))"

text \<open>Lines 82-104.\<close>

definition ExpoImage_placeholder ::
  "url_parser \<Rightarrow> 'v placeholder_prop \<Rightarrow> string option \<Rightarrow> string \<Rightarrow> headers option \<Rightarrow> string \<Rightarrow>
   js_error + 'v placeholder_prop" where
  "ExpoImage_placeholder parse ph id' cachePath' requestHeaders serverUrl =
     (case ph of
        PlaceholderObject obj \<Rightarrow>
          (case shouldAttachServerAuthHeaders parse (uri obj) serverUrl of
             Inl e \<Rightarrow> Inl e
           | Inr attach \<Rightarrow>
               let placeholderHeaders = mergeHeaders attach requestHeaders (headers obj)
               in (case truthy (uri obj) of
                     None \<Rightarrow> Inr (PlaceholderObject (obj\<lparr>headers := placeholderHeaders\<rparr>))
                   | Some u \<Rightarrow>
                       (case truthy id' of
                          None \<Rightarrow> Inr (PlaceholderObject (obj\<lparr>headers := placeholderHeaders\<rparr>))
                        | Some i \<Rightarrow>
                            Inr (PlaceholderObject (obj
                              \<lparr>headers := placeholderHeaders,
                               cacheKey := Some (placeholderCacheKey i),
                               cachePath := Some cachePath'\<rparr>)))))
      | other \<Rightarrow> Inr other)"

text \<open>
  The component: \<^verbatim>\<open>id\<close> is taken out of the props, and the props reach \<^verbatim>\<open>Image\<close> with
  \<^verbatim>\<open>source\<close> and \<^verbatim>\<open>placeholder\<close> replaced.
\<close>

definition ExpoImage :: "environment \<Rightarrow> 'v expo_image_props \<Rightarrow> js_error + 'v image_props" where
  "ExpoImage env props =
     (let serverUrl = useServerUrl env;
          requestHeaders = requestHeaders_memo (getRequestHeaders env);
          cachePath' = urlSafeBase64Encode env serverUrl
      in (case ExpoImage_source (parseURL env) (id_prop props) (source props) cachePath'
                 requestHeaders serverUrl of
            Inl e \<Rightarrow> Inl e
          | Inr src \<Rightarrow>
              (case ExpoImage_placeholder (parseURL env) (placeholder props) (id_prop props)
                      cachePath' requestHeaders serverUrl of
                 Inl e \<Rightarrow> Inl e
               | Inr ph \<Rightarrow>
                   Inr \<lparr>source = src, placeholder = ph, cachePolicy = cachePolicy props\<rparr>)))"

section \<open>\<^verbatim>\<open>ExpoImageBackground\<close> (lines 117-164)\<close>

text \<open>Lines 120-135.\<close>

definition ExpoImageBackground_source ::
  "string option \<Rightarrow> 'v source_prop \<Rightarrow> string \<Rightarrow> 'v source_prop" where
  "ExpoImageBackground_source id' src cachePath' =
     (case src of
        SourceNumber n \<Rightarrow> SourceNumber n
      | _ \<Rightarrow>
          (case truthy id' of
             Some i \<Rightarrow>
               SourceObject ((spread_source src)
                 \<lparr>cacheKey := Some (primaryCacheKey i), cachePath := Some cachePath'\<rparr>)
           | None \<Rightarrow> src))"

text \<open>Lines 138-153.\<close>

definition ExpoImageBackground_placeholder ::
  "'v placeholder_prop \<Rightarrow> string option \<Rightarrow> string \<Rightarrow> 'v placeholder_prop" where
  "ExpoImageBackground_placeholder ph id' cachePath' =
     (case ph of
        PlaceholderObject obj \<Rightarrow>
          (case truthy (uri obj) of
             None \<Rightarrow> ph
           | Some u \<Rightarrow>
               (case truthy id' of
                  None \<Rightarrow> ph
                | Some i \<Rightarrow>
                    PlaceholderObject (obj
                      \<lparr>cacheKey := Some (placeholderCacheKey i), cachePath := Some cachePath'\<rparr>)))
      | other \<Rightarrow> other)"

definition ExpoImageBackground :: "environment \<Rightarrow> 'v expo_image_props \<Rightarrow> 'v image_props" where
  "ExpoImageBackground env props =
     (let serverUrl = useServerUrl env;
          cachePath' = urlSafeBase64Encode env serverUrl
      in \<lparr>source = ExpoImageBackground_source (id_prop props) (source props) cachePath',
          placeholder = ExpoImageBackground_placeholder (placeholder props) (id_prop props) cachePath',
          cachePolicy = cachePolicy props\<rparr>)"


section \<open>The cache path\<close>

text \<open>
  Modelled from the spec: the encoding behind \<^verbatim>\<open>urlSafeBase64Encode\<close> of
  \<^verbatim>\<open>@utils/security\<close>, which is not among the sources. The specification asks for a
  deterministic URL-safe encoding with no path separator and no reserved character, and
  names the standard reversible URL-safe base 64. These are its alphabet, the digit of a
  number below 64, and the encoding of a list of bytes, three bytes to four digits, without
  padding.
\<close>

definition base64url_alphabet :: string where
  "base64url_alphabet = ''ABCDEFGHIJKLMNOPQRSTUVWXYZabcdefghijklmnopqrstuvwxyz0123456789-_''"

definition base64url_digit :: "nat \<Rightarrow> char" where
  "base64url_digit n = base64url_alphabet ! (n mod 64)"

fun base64url_encode :: "nat list \<Rightarrow> string" where
  "base64url_encode (a # b # c # bs) =
     base64url_digit (a div 4) #
     base64url_digit ((a mod 4) * 16 + b div 16) #
     base64url_digit ((b mod 16) * 4 + c div 64) #
     base64url_digit (c mod 64) # base64url_encode bs"
| "base64url_encode [a, b] =
     [base64url_digit (a div 4),
      base64url_digit ((a mod 4) * 16 + b div 16),
      base64url_digit ((b mod 16) * 4)]"
| "base64url_encode [a] =
     [base64url_digit (a div 4), base64url_digit ((a mod 4) * 16)]"
| "base64url_encode [] = []"

text \<open>
  Modelled from the spec: \<^verbatim>\<open>cachePathFor\<close>, the specification's name for
  \<^verbatim>\<open>urlSafeBase64Encode\<close> applied to the server identity (line 56), as the encoding of the
  bytes of the string.
\<close>

definition cachePathFor :: "string \<Rightarrow> string" where
  "cachePathFor serverIdentity = base64url_encode (map of_char serverIdentity)"

section \<open>Examples of the collaborators\<close>

text \<open>
  A finite excerpt of the platform's parser, on the URLs of the specification's examples
  and on two URLs of schemes with an opaque origin: what \<^verbatim>\<open>new URL\<close> gives there, and an
  exception on every other string. It serves to evaluate the component on concrete inputs.
\<close>

definition example_URL :: url_parser where
  "example_URL s =
     (if s = ''https://a.example.com'' then
        Some \<lparr>protocol = ''https:'', host = ''a.example.com'',
              origin = ''https://a.example.com'', pathname = ''/''\<rparr>
      else if s = ''https://a.example.com/api/v4/files/1'' then
        Some \<lparr>protocol = ''https:'', host = ''a.example.com'',
              origin = ''https://a.example.com'', pathname = ''/api/v4/files/1''\<rparr>
      else if s = ''https://a.example.com/static/logo.png'' then
        Some \<lparr>protocol = ''https:'', host = ''a.example.com'',
              origin = ''https://a.example.com'', pathname = ''/static/logo.png''\<rparr>
      else if s = ''https://b.example.com/api/v4/files/1'' then
        Some \<lparr>protocol = ''https:'', host = ''b.example.com'',
              origin = ''https://b.example.com'', pathname = ''/api/v4/files/1''\<rparr>
      else if s = ''https://chat.example.com'' then
        Some \<lparr>protocol = ''https:'', host = ''chat.example.com'',
              origin = ''https://chat.example.com'', pathname = ''/''\<rparr>
      else if s = ''https://chat.example.com/api/v4/files/42'' then
        Some \<lparr>protocol = ''https:'', host = ''chat.example.com'',
              origin = ''https://chat.example.com'', pathname = ''/api/v4/files/42''\<rparr>
      else if s = ''foo://evil.example/api/v4/files/1'' then
        Some \<lparr>protocol = ''foo:'', host = ''evil.example'',
              origin = ''null'', pathname = ''/api/v4/files/1''\<rparr>
      else if s = ''bar://a.example.com'' then
        Some \<lparr>protocol = ''bar:'', host = ''a.example.com'',
              origin = ''null'', pathname = []\<rparr>
      else None)"

text \<open>
  An environment for the examples: the server of the specification's examples, a client
  whose headers are those of its end-to-end scenario, and the encoding above.
\<close>

definition example_headers :: headers where
  "example_headers = [''Authorization'' \<mapsto> ''Bearer T'', ''Accept'' \<mapsto> ''*/*'']"

definition example_env :: environment where
  "example_env =
     \<lparr>parseURL = example_URL,
      useServerUrl = ''https://a.example.com'',
      getRequestHeaders = Inr example_headers,
      urlSafeBase64Encode = cachePathFor\<rparr>"

definition example_source :: "string \<Rightarrow> unit image_source" where
  "example_source u =
     \<lparr>uri = Some u, headers = None, cacheKey = None, cachePath = None, rest = Map.empty\<rparr>"

section \<open>Properties of the origin check\<close>

lemma shouldAttachServerAuthHeaders_undefined:
  "shouldAttachServerAuthHeaders parse None serverUrl = Inr False"
  by (simp add: shouldAttachServerAuthHeaders_def)

lemma shouldAttachServerAuthHeaders_total:
  "\<exists>b. shouldAttachServerAuthHeaders parse requestUri serverUrl = Inr b"
  by (cases requestUri) (auto simp: shouldAttachServerAuthHeaders_def split: sum.split)






text \<open>
  Claim C3. No exception leaves the function, and it returns false when the request URI is
  \<^verbatim>\<open>undefined\<close> or when the request URI or the server URL does not parse.
\<close>

theorem shouldAttachServerAuthHeaders_fail_closed:
  "(\<forall>e. shouldAttachServerAuthHeaders parse requestUri serverUrl \<noteq> Inl e) \<and>
   (requestUri = None \<or>
    (\<exists>u. requestUri = Some u \<and> (parse u = None \<or> parse serverUrl = None)) \<longrightarrow>
    shouldAttachServerAuthHeaders parse requestUri serverUrl = Inr False)"
proof (intro conjI allI impI)
  fix e
  from shouldAttachServerAuthHeaders_total [of parse requestUri serverUrl]
  show "shouldAttachServerAuthHeaders parse requestUri serverUrl \<noteq> Inl e"
    by auto
next
  assume "requestUri = None \<or>
    (\<exists>u. requestUri = Some u \<and> (parse u = None \<or> parse serverUrl = None))"
  then show "shouldAttachServerAuthHeaders parse requestUri serverUrl = Inr False"
    by (auto simp: shouldAttachServerAuthHeaders_def shouldAttachServerAuthHeaders_try_def
        new_URL_def split: option.split)
qed

theorem shouldAttachServerAuthHeaders_fail_closed_witness:
  "example_URL ''a.example.com/api/v4/files/1'' = None \<and>
   shouldAttachServerAuthHeaders example_URL (Some ''a.example.com/api/v4/files/1'')
     ''https://a.example.com'' = Inr False \<and>
   example_URL ''a.example.com'' = None \<and>
   shouldAttachServerAuthHeaders example_URL (Some ''https://a.example.com/api/v4/files/1'')
     ''a.example.com'' = Inr False \<and>
   shouldAttachServerAuthHeaders example_URL None ''https://a.example.com'' = Inr False"
proof -
  have u: "example_URL ''a.example.com/api/v4/files/1'' = None"
    and s: "example_URL ''a.example.com'' = None"
    by (simp_all add: example_URL_def)
  from u s
    shouldAttachServerAuthHeaders_fail_closed [of example_URL
      "Some ''a.example.com/api/v4/files/1''" "''https://a.example.com''"]
    shouldAttachServerAuthHeaders_fail_closed [of example_URL
      "Some ''https://a.example.com/api/v4/files/1''" "''a.example.com''"]
    shouldAttachServerAuthHeaders_fail_closed [of example_URL None "''https://a.example.com''"]
  show ?thesis
    by simp
qed

section \<open>Properties of the resolved headers\<close>

lemma mergeHeaders_without_Accept:
  "\<not> has_header (mergeHeaders attach requestHeaders callerHeaders) ''Accept''"
  by (simp add: has_header_def mergeHeaders_def delete_Accept_def split: option.split)

lemma ExpoImage_source_headers:
  "\<exists>r attach. ExpoImage_source parse id' src cachePath' requestHeaders serverUrl = Inr r \<and>
     ((\<exists>n. src = SourceNumber n \<and> r = src) \<or>
      source_field headers r = mergeHeaders attach requestHeaders (source_field headers src))"
proof -
  obtain attach where
    "shouldAttachServerAuthHeaders parse (source_field uri src) serverUrl = Inr attach"
    using shouldAttachServerAuthHeaders_total by blast
  then show ?thesis
    by (cases src; cases "truthy id'")
      (auto simp: ExpoImage_source_def source_field_def)
qed

lemma ExpoImage_placeholder_headers:
  "\<exists>r attach. ExpoImage_placeholder parse ph id' cachePath' requestHeaders serverUrl = Inr r \<and>
     ((placeholder_field headers ph = None \<and> r = ph) \<or>
      placeholder_field headers r =
        mergeHeaders attach requestHeaders (placeholder_field headers ph))"
proof -
  obtain attach where
    "shouldAttachServerAuthHeaders parse (placeholder_field uri ph) serverUrl = Inr attach"
    using shouldAttachServerAuthHeaders_total by blast
  then show ?thesis
    by (cases ph; cases "truthy id'"; cases "truthy (placeholder_field uri ph)")
      (auto simp: ExpoImage_placeholder_def placeholder_field_def)
qed

lemma ExpoImage_total:
  "\<exists>src ph. ExpoImage env props =
     Inr \<lparr>source = src, placeholder = ph, cachePolicy = cachePolicy props\<rparr> \<and>
     ExpoImage_source (parseURL env) (id_prop props) (source props)
       (urlSafeBase64Encode env (useServerUrl env)) (requestHeaders_memo (getRequestHeaders env))
       (useServerUrl env) = Inr src \<and>
     ExpoImage_placeholder (parseURL env) (placeholder props) (id_prop props)
       (urlSafeBase64Encode env (useServerUrl env)) (requestHeaders_memo (getRequestHeaders env))
       (useServerUrl env) = Inr ph"
proof -
  obtain src where "ExpoImage_source (parseURL env) (id_prop props) (source props)
       (urlSafeBase64Encode env (useServerUrl env)) (requestHeaders_memo (getRequestHeaders env))
       (useServerUrl env) = Inr src"
    using ExpoImage_source_headers by blast
  moreover obtain ph where "ExpoImage_placeholder (parseURL env) (placeholder props) (id_prop props)
       (urlSafeBase64Encode env (useServerUrl env)) (requestHeaders_memo (getRequestHeaders env))
       (useServerUrl env) = Inr ph"
    using ExpoImage_placeholder_headers by blast
  ultimately show ?thesis
    by (simp add: ExpoImage_def)
qed

text \<open>
  Claim C5. Whatever the server's headers, the caller's headers and the outcome of the
  origin check, the merged headers hold no \<^verbatim>\<open>Accept\<close> entry, and neither do the headers of
  the source and of the placeholder that the component resolves.
\<close>

theorem resolved_headers_without_Accept:
  "\<not> has_header (mergeHeaders attach requestHeaders callerHeaders) ''Accept'' \<and>
   (\<exists>r. ExpoImage env props = Inr r \<and>
      \<not> has_header (source_field headers (source r)) ''Accept'' \<and>
      \<not> has_header (placeholder_field headers (placeholder r)) ''Accept'')"
proof -
  obtain src ph where r: "ExpoImage env props =
      Inr \<lparr>source = src, placeholder = ph, cachePolicy = cachePolicy props\<rparr>"
    and src: "ExpoImage_source (parseURL env) (id_prop props) (source props)
       (urlSafeBase64Encode env (useServerUrl env)) (requestHeaders_memo (getRequestHeaders env))
       (useServerUrl env) = Inr src"
    and ph: "ExpoImage_placeholder (parseURL env) (placeholder props) (id_prop props)
       (urlSafeBase64Encode env (useServerUrl env)) (requestHeaders_memo (getRequestHeaders env))
       (useServerUrl env) = Inr ph"
    using ExpoImage_total by blast
  from src ExpoImage_source_headers [of "parseURL env" "id_prop props" "source props"
      "urlSafeBase64Encode env (useServerUrl env)" "requestHeaders_memo (getRequestHeaders env)"
      "useServerUrl env"]
  have "\<not> has_header (source_field headers src) ''Accept''"
    by (auto simp: mergeHeaders_without_Accept) (simp add: has_header_def source_field_def)
  moreover
  from ph ExpoImage_placeholder_headers [of "parseURL env" "placeholder props" "id_prop props"
      "urlSafeBase64Encode env (useServerUrl env)" "requestHeaders_memo (getRequestHeaders env)"
      "useServerUrl env"]
  have "\<not> has_header (placeholder_field headers ph) ''Accept''"
    by (auto simp: mergeHeaders_without_Accept) (simp add: has_header_def)
  ultimately show ?thesis
    using r by (simp add: mergeHeaders_without_Accept)
qed

text \<open>
  Claim C6, as the code has it. When the origin check fails or the client's headers are
  unavailable, the headers of the resolved source and placeholder are the caller's own
  headers without their \<^verbatim>\<open>Accept\<close> entry (and \<^verbatim>\<open>undefined\<close> when the caller gave none): no
  entry is added, no other entry is removed, none is modified.
\<close>

theorem headers_without_auth:
  assumes "shouldAttachServerAuthHeaders parse (uri obj) serverUrl = Inr attach"
    and "\<not> attach \<or> requestHeaders = None"
  shows "mergeHeaders attach requestHeaders (headers obj) =
           (case headers obj of None \<Rightarrow> None | Some m \<Rightarrow> Some (m(''Accept'' := None))) \<and>
         (\<exists>r. ExpoImage_source parse id' (SourceObject obj) cachePath' requestHeaders serverUrl =
                Inr (SourceObject r) \<and>
              headers r = mergeHeaders attach requestHeaders (headers obj)) \<and>
         (\<exists>r. ExpoImage_placeholder parse (PlaceholderObject obj) id' cachePath' requestHeaders
                serverUrl = Inr (PlaceholderObject r) \<and>
              headers r = mergeHeaders attach requestHeaders (headers obj))"
proof (intro conjI)
  from assms(2)
  show "mergeHeaders attach requestHeaders (headers obj) =
      (case headers obj of None \<Rightarrow> None | Some m \<Rightarrow> Some (m(''Accept'' := None)))"
    by (auto simp: mergeHeaders_def delete_Accept_def split: option.split)
next
  from assms(1)
  show "\<exists>r. ExpoImage_source parse id' (SourceObject obj) cachePath' requestHeaders serverUrl =
                Inr (SourceObject r) \<and>
              headers r = mergeHeaders attach requestHeaders (headers obj)"
    by (cases "truthy id'") (simp_all add: ExpoImage_source_def source_field_def)
next
  from assms(1)
  show "\<exists>r. ExpoImage_placeholder parse (PlaceholderObject obj) id' cachePath' requestHeaders
                serverUrl = Inr (PlaceholderObject r) \<and>
              headers r = mergeHeaders attach requestHeaders (headers obj)"
    by (cases "truthy id'"; cases "truthy (uri obj)") (simp_all add: ExpoImage_placeholder_def)
qed

theorem headers_without_auth_witness:
  "shouldAttachServerAuthHeaders example_URL
     (uri ((example_source ''https://b.example.com/api/v4/files/1'')
        \<lparr>headers := Some [''X-Requested-With'' \<mapsto> ''XMLHttpRequest'']\<rparr>))
     ''https://a.example.com'' = Inr False \<and>
   mergeHeaders False (Some example_headers)
     (headers ((example_source ''https://b.example.com/api/v4/files/1'')
        \<lparr>headers := Some [''X-Requested-With'' \<mapsto> ''XMLHttpRequest'']\<rparr>)) =
     Some [''X-Requested-With'' \<mapsto> ''XMLHttpRequest'']"
proof -
  have a: "shouldAttachServerAuthHeaders example_URL
     (uri ((example_source ''https://b.example.com/api/v4/files/1'')
        \<lparr>headers := Some [''X-Requested-With'' \<mapsto> ''XMLHttpRequest'']\<rparr>))
     ''https://a.example.com'' = Inr False"
    by (simp add: shouldAttachServerAuthHeaders_def shouldAttachServerAuthHeaders_try_def
        new_URL_def example_URL_def example_source_def)
  have "[''X-Requested-With'' \<mapsto> ''XMLHttpRequest''](''Accept'' := None) =
      ([''X-Requested-With'' \<mapsto> ''XMLHttpRequest''] :: headers)"
    by (simp add: fun_upd_idem)
  with headers_without_auth [OF a, of "Some example_headers"] a show ?thesis
    by (simp add: example_source_def)
qed

theorem headers_unchanged_counterexample:
  "shouldAttachServerAuthHeaders example_URL (Some ''https://b.example.com/api/v4/files/1'')
     ''https://a.example.com'' = Inr False \<and>
   mergeHeaders False (Some example_headers) (Some [''Accept'' \<mapsto> ''image/png'']) =
     Some Map.empty \<and>
   mergeHeaders False (Some example_headers) (Some [''Accept'' \<mapsto> ''image/png'']) \<noteq>
     Some [''Accept'' \<mapsto> ''image/png''] \<and>
   ExpoImage_source example_URL None
     (SourceObject ((example_source ''https://b.example.com/api/v4/files/1'')
        \<lparr>headers := Some [''Accept'' \<mapsto> ''image/png'']\<rparr>))
     ''cache'' (Some example_headers) ''https://a.example.com'' =
   Inr (SourceObject ((example_source ''https://b.example.com/api/v4/files/1'')
        \<lparr>headers := Some Map.empty\<rparr>))"
proof -
  have a: "shouldAttachServerAuthHeaders example_URL (Some ''https://b.example.com/api/v4/files/1'')
     ''https://a.example.com'' = Inr False"
    by (simp add: shouldAttachServerAuthHeaders_def shouldAttachServerAuthHeaders_try_def
        new_URL_def example_URL_def)
  have m: "mergeHeaders False (Some example_headers) (Some [''Accept'' \<mapsto> ''image/png'']) =
     Some Map.empty"
    by (simp add: mergeHeaders_def delete_Accept_def)
  have "[''Accept'' \<mapsto> ''image/png''] ''Accept'' \<noteq> (Map.empty :: headers) ''Accept''"
    by simp
  then have n: "(Map.empty :: headers) \<noteq> [''Accept'' \<mapsto> ''image/png'']"
    by metis
  from a m n show ?thesis
    by (simp add: ExpoImage_source_def source_field_def example_source_def truthy_def)
qed

section \<open>Properties of the resolved sources\<close>

lemma ExpoImageBackground_source_sel:
  "source (ExpoImageBackground env props) =
     ExpoImageBackground_source (id_prop props) (source props)
       (urlSafeBase64Encode env (useServerUrl env))"
  by (simp add: ExpoImageBackground_def Let_def)

lemma ExpoImageBackground_placeholder_sel:
  "placeholder (ExpoImageBackground env props) =
     ExpoImageBackground_placeholder (placeholder props) (id_prop props)
       (urlSafeBase64Encode env (useServerUrl env))"
  by (simp add: ExpoImageBackground_def Let_def)

text \<open>
  Claim C9. A source that is a number, the handle of a bundled asset, is returned as it is
  by both components, whatever the id, the server, the headers and the cache policy.
\<close>

theorem bundled_asset_unchanged:
  "ExpoImage_source parse id' (SourceNumber n) cachePath' requestHeaders serverUrl =
     Inr (SourceNumber n) \<and>
   ExpoImageBackground_source id' (SourceNumber n) cachePath' = SourceNumber n \<and>
   (\<exists>r. ExpoImage env (props\<lparr>source := SourceNumber n\<rparr>) = Inr r \<and> source r = SourceNumber n) \<and>
   source (ExpoImageBackground env (props\<lparr>source := SourceNumber n\<rparr>)) = SourceNumber n"
proof (intro conjI)
  show s: "ExpoImage_source parse id' (SourceNumber n) cachePath' requestHeaders serverUrl =
     Inr (SourceNumber n)" for parse id' cachePath' requestHeaders serverUrl
    by (simp add: ExpoImage_source_def)
  show b: "ExpoImageBackground_source id' (SourceNumber n) cachePath' = SourceNumber n"
    for id' cachePath'
    by (simp add: ExpoImageBackground_source_def)
  from ExpoImage_total [of env "props\<lparr>source := SourceNumber n\<rparr>"]
  show "\<exists>r. ExpoImage env (props\<lparr>source := SourceNumber n\<rparr>) = Inr r \<and> source r = SourceNumber n"
    by (auto simp: s)
  show "source (ExpoImageBackground env (props\<lparr>source := SourceNumber n\<rparr>)) = SourceNumber n"
    by (simp add: ExpoImageBackground_source_sel b)
qed

text \<open>
  Claim C10. \<^verbatim>\<open>ExpoImageBackground\<close> leaves the headers of the source and of the
  placeholder as the caller gave them, and each resolved value is the caller's value, or
  the caller's object with \<^verbatim>\<open>cacheKey\<close> and \<^verbatim>\<open>cachePath\<close> set.
\<close>

theorem ExpoImageBackground_keeps_headers:
  "source_field headers (source (ExpoImageBackground env props)) =
     source_field headers (source props) \<and>
   placeholder_field headers (placeholder (ExpoImageBackground env props)) =
     placeholder_field headers (placeholder props) \<and>
   (source (ExpoImageBackground env props) = source props \<or>
    (\<exists>k p. source (ExpoImageBackground env props) =
       SourceObject ((spread_source (source props))\<lparr>cacheKey := Some k, cachePath := Some p\<rparr>))) \<and>
   (placeholder (ExpoImageBackground env props) = placeholder props \<or>
    (\<exists>obj k p. placeholder props = PlaceholderObject obj \<and>
       placeholder (ExpoImageBackground env props) =
         PlaceholderObject (obj\<lparr>cacheKey := Some k, cachePath := Some p\<rparr>)))"
proof (intro conjI)
  show "source_field headers (source (ExpoImageBackground env props)) =
     source_field headers (source props)"
    by (cases "source props"; cases "truthy (id_prop props)")
      (simp_all add: ExpoImageBackground_source_sel ExpoImageBackground_source_def source_field_def
        empty_object_def)
  show "placeholder_field headers (placeholder (ExpoImageBackground env props)) =
     placeholder_field headers (placeholder props)"
    by (cases "placeholder props"; cases "truthy (id_prop props)";
        cases "truthy (placeholder_field uri (placeholder props))")
      (simp_all add: ExpoImageBackground_placeholder_sel ExpoImageBackground_placeholder_def
        placeholder_field_def)
  show "source (ExpoImageBackground env props) = source props \<or>
    (\<exists>k p. source (ExpoImageBackground env props) =
       SourceObject ((spread_source (source props))\<lparr>cacheKey := Some k, cachePath := Some p\<rparr>))"
    by (cases "source props"; cases "truthy (id_prop props)")
      (auto simp: ExpoImageBackground_source_sel ExpoImageBackground_source_def)
  show "placeholder (ExpoImageBackground env props) = placeholder props \<or>
    (\<exists>obj k p. placeholder props = PlaceholderObject obj \<and>
       placeholder (ExpoImageBackground env props) =
         PlaceholderObject (obj\<lparr>cacheKey := Some k, cachePath := Some p\<rparr>))"
    by (cases "placeholder props"; cases "truthy (id_prop props)";
        cases "truthy (placeholder_field uri (placeholder props))")
      (auto simp: ExpoImageBackground_placeholder_sel ExpoImageBackground_placeholder_def
        placeholder_field_def)
qed

section \<open>Properties of the cache coordinates\<close>

lemma ExpoImage_source_without_id:
  assumes "truthy id' = None"
  shows "\<exists>r. ExpoImage_source parse id' src cachePath' requestHeaders serverUrl = Inr r \<and>
    source_field cacheKey r = source_field cacheKey src \<and>
    source_field cachePath r = source_field cachePath src"
proof -
  obtain attach where
    "shouldAttachServerAuthHeaders parse (source_field uri src) serverUrl = Inr attach"
    using shouldAttachServerAuthHeaders_total by blast
  with assms show ?thesis
    by (cases src) (simp_all add: ExpoImage_source_def source_field_def empty_object_def)
qed

lemma ExpoImage_placeholder_without_id:
  assumes "truthy id' = None"
  shows "\<exists>r. ExpoImage_placeholder parse ph id' cachePath' requestHeaders serverUrl = Inr r \<and>
    placeholder_field cacheKey r = placeholder_field cacheKey ph \<and>
    placeholder_field cachePath r = placeholder_field cachePath ph"
proof -
  obtain attach where
    "shouldAttachServerAuthHeaders parse (placeholder_field uri ph) serverUrl = Inr attach"
    using shouldAttachServerAuthHeaders_total by blast
  with assms show ?thesis
    by (cases ph; cases "truthy (placeholder_field uri ph)")
      (simp_all add: ExpoImage_placeholder_def placeholder_field_def)
qed

text \<open>
  Without an id (\<^verbatim>\<open>undefined\<close> or the empty string), the resolved source and placeholder
  have the \<^verbatim>\<open>cacheKey\<close> and \<^verbatim>\<open>cachePath\<close> of the caller's own descriptors and no other,
  whatever the cache policy.
\<close>

lemma memory_only_without_id:
  assumes "cachePolicy props = Some CacheMemory"
    and "truthy (id_prop props) = None"
  shows "\<exists>r. ExpoImage env props = Inr r \<and>
    cachePolicy r = Some CacheMemory \<and>
    source_field cacheKey (source r) = source_field cacheKey (source props) \<and>
    source_field cachePath (source r) = source_field cachePath (source props) \<and>
    placeholder_field cacheKey (placeholder r) = placeholder_field cacheKey (placeholder props) \<and>
    placeholder_field cachePath (placeholder r) = placeholder_field cachePath (placeholder props)"
proof -
  obtain src ph where r: "ExpoImage env props =
      Inr \<lparr>source = src, placeholder = ph, cachePolicy = cachePolicy props\<rparr>"
    and src: "ExpoImage_source (parseURL env) (id_prop props) (source props)
       (urlSafeBase64Encode env (useServerUrl env)) (requestHeaders_memo (getRequestHeaders env))
       (useServerUrl env) = Inr src"
    and ph: "ExpoImage_placeholder (parseURL env) (placeholder props) (id_prop props)
       (urlSafeBase64Encode env (useServerUrl env)) (requestHeaders_memo (getRequestHeaders env))
       (useServerUrl env) = Inr ph"
    using ExpoImage_total by blast
  from src ExpoImage_source_without_id [OF assms(2), of "parseURL env" "source props"
      "urlSafeBase64Encode env (useServerUrl env)" "requestHeaders_memo (getRequestHeaders env)"
      "useServerUrl env"]
  have "source_field cacheKey src = source_field cacheKey (source props)"
    "source_field cachePath src = source_field cachePath (source props)"
    by auto
  moreover
  from ph ExpoImage_placeholder_without_id [OF assms(2), of "parseURL env" "placeholder props"
      "urlSafeBase64Encode env (useServerUrl env)" "requestHeaders_memo (getRequestHeaders env)"
      "useServerUrl env"]
  have "placeholder_field cacheKey ph = placeholder_field cacheKey (placeholder props)"
    "placeholder_field cachePath ph = placeholder_field cachePath (placeholder props)"
    by auto
  ultimately show ?thesis
    using r assms(1) by simp
qed

lemma memory_only_without_id_example:
  "\<exists>r. ExpoImage example_env
      \<lparr>source = SourceObject (example_source ''https://a.example.com/api/v4/files/1''),
       placeholder = PlaceholderObject (example_source ''https://a.example.com/static/logo.png''),
       cachePolicy = Some CacheMemory, id_prop = None\<rparr> = Inr r \<and>
     cachePolicy r = Some CacheMemory \<and>
     source_field cacheKey (source r) = None \<and>
     source_field cachePath (source r) = None \<and>
     placeholder_field cacheKey (placeholder r) = None \<and>
     placeholder_field cachePath (placeholder r) = None"
  using memory_only_without_id [of
      "\<lparr>source = SourceObject (example_source ''https://a.example.com/api/v4/files/1''),
        placeholder = PlaceholderObject (example_source ''https://a.example.com/static/logo.png''),
        cachePolicy = Some CacheMemory, id_prop = None\<rparr>" example_env]
  by (simp add: truthy_def source_field_def placeholder_field_def example_source_def)

lemma example_attach:
  "shouldAttachServerAuthHeaders example_URL (Some ''https://a.example.com/api/v4/files/1'')
     ''https://a.example.com'' = Inr True"
  "shouldAttachServerAuthHeaders example_URL (Some ''https://a.example.com/static/logo.png'')
     ''https://a.example.com'' = Inr False"
  "shouldAttachServerAuthHeaders example_URL (Some ''https://b.example.com/api/v4/files/1'')
     ''https://a.example.com'' = Inr False"
  by (simp_all add: shouldAttachServerAuthHeaders_def shouldAttachServerAuthHeaders_try_def
      new_URL_def example_URL_def startsWith_def)

lemma example_merge:
  "mergeHeaders True (Some example_headers) None = Some [''Authorization'' \<mapsto> ''Bearer T'']"
  "mergeHeaders False (Some example_headers) None = None"
  by (simp_all add: mergeHeaders_def delete_Accept_def spread_headers_def example_headers_def
      fun_upd_idem)

lemma example_cachePath: "cachePathFor ''https://a.example.com'' = ''aHR0cHM6Ly9hLmV4YW1wbGUuY29t''"
  by (simp add: cachePathFor_def base64url_digit_def base64url_alphabet_def)

text \<open>
  Claim C2. Under the memory-only policy the resolved source and placeholder are to hold no
  \<^verbatim>\<open>cacheKey\<close> and no \<^verbatim>\<open>cachePath\<close>, also when an id is given; the comments of lines 65
  and 125 read the test of the id as the test for a policy that is not memory-only. The
  code tests the id alone and never reads \<^verbatim>\<open>cachePolicy\<close>: at this input, the memory-only
  policy with the id \<^verbatim>\<open>img-1\<close>, it sets \<^verbatim>\<open>cacheKey\<close> and \<^verbatim>\<open>cachePath\<close> on the source and on
  the placeholder.
\<close>

theorem memory_only_with_id:
  "ExpoImage example_env
      \<lparr>source = SourceObject (example_source ''https://a.example.com/api/v4/files/1''),
       placeholder = PlaceholderObject (example_source ''https://a.example.com/static/logo.png''),
       cachePolicy = Some CacheMemory, id_prop = Some ''img-1''\<rparr> =
   Inr \<lparr>source = SourceObject
          \<lparr>uri = Some ''https://a.example.com/api/v4/files/1'',
           headers = Some [''Authorization'' \<mapsto> ''Bearer T''],
           cacheKey = Some ''img-1'',
           cachePath = Some ''aHR0cHM6Ly9hLmV4YW1wbGUuY29t'',
           rest = Map.empty\<rparr>,
        placeholder = PlaceholderObject
          \<lparr>uri = Some ''https://a.example.com/static/logo.png'',
           headers = None,
           cacheKey = Some ''img-1-thumb'',
           cachePath = Some ''aHR0cHM6Ly9hLmV4YW1wbGUuY29t'',
           rest = Map.empty\<rparr>,
        cachePolicy = Some CacheMemory\<rparr>"
  by (simp add: ExpoImage_def Let_def ExpoImage_source_def ExpoImage_placeholder_def example_env_def
      example_source_def source_field_def requestHeaders_memo_def truthy_def example_attach
      example_merge example_cachePath primaryCacheKey_def placeholderCacheKey_def)

text \<open>
  Claim C8. The key of the placeholder is the id followed by \<^verbatim>\<open>-thumb\<close>, a function of the
  id alone, and it differs from the key of the source for the same id: where both
  components set the two keys, for an id that is not empty and a placeholder with a URI,
  the keys are distinct.
\<close>

theorem placeholder_key_distinct:
  assumes "truthy id' = Some i"
    and "truthy (uri ph) = Some u"
  shows "placeholderCacheKey i = primaryCacheKey i @ ''-thumb'' \<and>
    placeholderCacheKey i \<noteq> primaryCacheKey i \<and>
    (\<exists>s p. ExpoImage_source parse id' (SourceObject src) cachePath' requestHeaders serverUrl =
             Inr (SourceObject s) \<and>
           ExpoImage_placeholder parse (PlaceholderObject ph) id' cachePath' requestHeaders
             serverUrl = Inr (PlaceholderObject p) \<and>
           cacheKey s = Some (primaryCacheKey i) \<and>
           cacheKey p = Some (placeholderCacheKey i) \<and>
           cacheKey p \<noteq> cacheKey s) \<and>
    (\<exists>s p. ExpoImageBackground_source id' (SourceObject src) cachePath' = SourceObject s \<and>
           ExpoImageBackground_placeholder (PlaceholderObject ph) id' cachePath' =
             PlaceholderObject p \<and>
           cacheKey s = Some (primaryCacheKey i) \<and>
           cacheKey p = Some (placeholderCacheKey i) \<and>
           cacheKey p \<noteq> cacheKey s)"
proof -
  have k: "placeholderCacheKey i = primaryCacheKey i @ ''-thumb''"
    and d: "placeholderCacheKey i \<noteq> primaryCacheKey i"
    by (simp_all add: placeholderCacheKey_def primaryCacheKey_def)
  obtain a b where
    "shouldAttachServerAuthHeaders parse (source_field uri (SourceObject src)) serverUrl = Inr a"
    "shouldAttachServerAuthHeaders parse (uri ph) serverUrl = Inr b"
    using shouldAttachServerAuthHeaders_total by blast
  with assms d have
    "\<exists>s p. ExpoImage_source parse id' (SourceObject src) cachePath' requestHeaders serverUrl =
             Inr (SourceObject s) \<and>
           ExpoImage_placeholder parse (PlaceholderObject ph) id' cachePath' requestHeaders
             serverUrl = Inr (PlaceholderObject p) \<and>
           cacheKey s = Some (primaryCacheKey i) \<and>
           cacheKey p = Some (placeholderCacheKey i) \<and>
           cacheKey p \<noteq> cacheKey s"
    by (simp add: ExpoImage_source_def ExpoImage_placeholder_def)
  moreover from assms d have
    "\<exists>s p. ExpoImageBackground_source id' (SourceObject src) cachePath' = SourceObject s \<and>
           ExpoImageBackground_placeholder (PlaceholderObject ph) id' cachePath' =
             PlaceholderObject p \<and>
           cacheKey s = Some (primaryCacheKey i) \<and>
           cacheKey p = Some (placeholderCacheKey i) \<and>
           cacheKey p \<noteq> cacheKey s"
    by (simp add: ExpoImageBackground_source_def ExpoImageBackground_placeholder_def)
  ultimately show ?thesis
    using k d by blast
qed

theorem placeholder_key_distinct_witness:
  "truthy (Some ''img-1'') = Some ''img-1'' \<and>
   truthy (uri (example_source ''https://a.example.com/static/logo.png'' :: unit image_source)) =
     Some ''https://a.example.com/static/logo.png'' \<and>
   placeholderCacheKey ''img-1'' = ''img-1-thumb'' \<and>
   primaryCacheKey ''img-1'' = ''img-1'' \<and>
   placeholderCacheKey ''img-1'' \<noteq> primaryCacheKey ''img-1''"
proof -
  have a: "truthy (Some ''img-1'') = Some ''img-1''"
    and b: "truthy (uri (example_source ''https://a.example.com/static/logo.png'' :: unit image_source)) =
     Some ''https://a.example.com/static/logo.png''"
    by (simp_all add: truthy_def example_source_def)
  from placeholder_key_distinct [OF a b, where parse = example_URL
      and src = "example_source ''https://a.example.com/api/v4/files/1''"
      and cachePath' = "''aHR0cHM6Ly9hLmV4YW1wbGUuY29t''" and requestHeaders = None
      and serverUrl = "''https://a.example.com''"] a b
  show ?thesis
    by (simp add: primaryCacheKey_def)
qed

text \<open>
  Claim C4, as the code has it. The key of a placeholder is the key of the source of
  another id exactly when that id is the first followed by \<^verbatim>\<open>-thumb\<close>: for an id that
  does not end in \<^verbatim>\<open>-thumb\<close>, the key of its source is the placeholder key of no id.
\<close>

theorem placeholder_key_no_collision:
  assumes "\<not> suffix ''-thumb'' id2"
  shows "placeholderCacheKey id1 \<noteq> primaryCacheKey id2"
  using assms by (auto simp: placeholderCacheKey_def primaryCacheKey_def suffix_def)

theorem placeholder_key_no_collision_witness:
  "\<not> suffix ''-thumb'' ''img-2'' \<and> placeholderCacheKey ''img-1'' \<noteq> primaryCacheKey ''img-2''"
proof -
  have a: "\<not> suffix ''-thumb'' ''img-2''"
    by (simp add: suffix_to_prefix)
  from placeholder_key_no_collision [OF a] a show ?thesis
    by simp
qed

theorem placeholder_key_collision_counterexample:
  "''img-1'' \<noteq> ''img-1-thumb'' \<and>
   placeholderCacheKey ''img-1'' = primaryCacheKey ''img-1-thumb'' \<and>
   placeholder_field cacheKey
     (ExpoImageBackground_placeholder
        (PlaceholderObject (example_source ''https://a.example.com/static/logo.png''))
        (Some ''img-1'') ''aHR0cHM6Ly9hLmV4YW1wbGUuY29t'') =
   source_field cacheKey
     (ExpoImageBackground_source (Some ''img-1-thumb'')
        (SourceObject (example_source ''https://a.example.com/api/v4/files/1''))
        ''aHR0cHM6Ly9hLmV4YW1wbGUuY29t'') \<and>
   placeholder_field cachePath
     (ExpoImageBackground_placeholder
        (PlaceholderObject (example_source ''https://a.example.com/static/logo.png''))
        (Some ''img-1'') ''aHR0cHM6Ly9hLmV4YW1wbGUuY29t'') =
   source_field cachePath
     (ExpoImageBackground_source (Some ''img-1-thumb'')
        (SourceObject (example_source ''https://a.example.com/api/v4/files/1''))
        ''aHR0cHM6Ly9hLmV4YW1wbGUuY29t'')"
  by (simp add: placeholderCacheKey_def primaryCacheKey_def ExpoImageBackground_source_def
      ExpoImageBackground_placeholder_def truthy_def example_source_def source_field_def
      placeholder_field_def)

section \<open>Properties of the cache path\<close>

lemma length_alphabet: "length base64url_alphabet = 64"
  by (simp add: base64url_alphabet_def)

lemma distinct_alphabet: "distinct base64url_alphabet"
  by (simp add: base64url_alphabet_def)

lemma base64url_digit_eq_iff:
  "m < 64 \<Longrightarrow> n < 64 \<Longrightarrow> (base64url_digit m = base64url_digit n) = (m = n)"
  using distinct_alphabet length_alphabet
  by (simp add: base64url_digit_def nth_eq_iff_index_eq)

lemma sextet_bounds:
  fixes a b :: nat
  assumes "a < 256" "b < 256"
  shows "a div 4 < 64" "(a mod 4) * 16 + b div 16 < 64" "(a mod 16) * 4 + b div 64 < 64"
    "a mod 64 < 64" "(a mod 16) * 4 < 64" "(a mod 4) * 16 < 64"
  using assms by arith+

lemma split_radix:
  fixes x y x' y' :: nat
  assumes "x * k + y = x' * k + y'" "y < k" "y' < k"
  shows "x = x' \<and> y = y'"
proof -
  have "(x * k + y) div k = x" "(x' * k + y') div k = x'" "(x * k + y) mod k = y" "(x' * k + y') mod k = y'"
    using assms(2,3) by simp_all
  with assms(1) show ?thesis by metis
qed

lemma chunk1:
  fixes a a' :: nat
  assumes "a div 4 = a' div 4" and "(a mod 4) * 16 = (a' mod 4) * 16"
  shows "a = a'"
proof -
  from assms(2) have "a mod 4 = a' mod 4" by simp
  with assms(1) show ?thesis by (metis div_mult_mod_eq)
qed

lemma chunk2:
  fixes a b a' b' :: nat
  assumes "b < 256" "b' < 256"
    and "a div 4 = a' div 4"
    and "(a mod 4) * 16 + b div 16 = (a' mod 4) * 16 + b' div 16"
    and "(b mod 16) * 4 = (b' mod 16) * 4"
  shows "a = a' \<and> b = b'"
proof -
  have "b div 16 < 16" "b' div 16 < 16" using assms(1,2) by arith+
  from split_radix [OF assms(4) this] have "a mod 4 = a' mod 4" "b div 16 = b' div 16" by simp_all
  moreover from assms(5) have "b mod 16 = b' mod 16" by simp
  ultimately show ?thesis using assms(3) by (metis div_mult_mod_eq)
qed

lemma chunk3:
  fixes a b c a' b' c' :: nat
  assumes "b < 256" "c < 256" "b' < 256" "c' < 256"
    and "a div 4 = a' div 4"
    and "(a mod 4) * 16 + b div 16 = (a' mod 4) * 16 + b' div 16"
    and "(b mod 16) * 4 + c div 64 = (b' mod 16) * 4 + c' div 64"
    and "c mod 64 = c' mod 64"
  shows "a = a' \<and> b = b' \<and> c = c'"
proof -
  have "b div 16 < 16" "b' div 16 < 16" using assms(1,3) by arith+
  from split_radix [OF assms(6) this] have ab: "a mod 4 = a' mod 4" "b div 16 = b' div 16" by simp_all
  have "c div 64 < 4" "c' div 64 < 4" using assms(2,4) by arith+
  from split_radix [OF assms(7) this] have bc: "b mod 16 = b' mod 16" "c div 64 = c' div 64" by simp_all
  from ab(1) assms(5) have "a = a'" by (metis div_mult_mod_eq)
  moreover from ab(2) bc(1) have "b = b'" by (metis div_mult_mod_eq)
  moreover from bc(2) assms(8) have "c = c'" by (metis div_mult_mod_eq)
  ultimately show ?thesis by simp
qed

lemma base64url_encode_inj:
  assumes "list_all (\<lambda>x. x < 256) xs" and "list_all (\<lambda>y. y < 256) ys"
    and "base64url_encode xs = base64url_encode ys"
  shows "xs = ys"
  using assms
proof (induction xs arbitrary: ys rule: base64url_encode.induct)
  case (1 a b c bs)
  show ?case
  proof (cases ys rule: base64url_encode.cases)
    case (1 a' b' c' bs')
    with "1.prems" have bounds: "a < 256" "b < 256" "c < 256" "a' < 256" "b' < 256" "c' < 256"
      and rest: "list_all (\<lambda>x. x < 256) bs" "list_all (\<lambda>y. y < 256) bs'"
      by simp_all
    from "1.prems"(3) 1 bounds have eqs: "a div 4 = a' div 4"
      "(a mod 4) * 16 + b div 16 = (a' mod 4) * 16 + b' div 16"
      "(b mod 16) * 4 + c div 64 = (b' mod 16) * 4 + c' div 64"
      "c mod 64 = c' mod 64"
      and tl: "base64url_encode bs = base64url_encode bs'"
      by (simp_all add: base64url_digit_eq_iff sextet_bounds)
    from chunk3 [OF bounds(2,3,5,6) eqs] "1.IH" [OF rest tl] 1 show ?thesis
      by simp
  qed (use "1.prems" in simp_all)
next
  case (2 a b)
  show ?case
  proof (cases ys rule: base64url_encode.cases)
    case (2 a' b')
    with "2.prems" have bounds: "a < 256" "b < 256" "a' < 256" "b' < 256"
      by simp_all
    from "2.prems"(3) 2 bounds have eqs: "a div 4 = a' div 4"
      "(a mod 4) * 16 + b div 16 = (a' mod 4) * 16 + b' div 16"
      "(b mod 16) * 4 = (b' mod 16) * 4"
      by (simp_all add: base64url_digit_eq_iff sextet_bounds)
    from chunk2 [OF bounds(2,4) eqs] 2 show ?thesis
      by simp
  qed (use "2.prems" in simp_all)
next
  case (3 a)
  show ?case
  proof (cases ys rule: base64url_encode.cases)
    case (3 a')
    with "3.prems" have bounds: "a < 256" "a' < 256"
      by simp_all
    from "3.prems"(3) 3 bounds have eqs: "a div 4 = a' div 4" "(a mod 4) * 16 = (a' mod 4) * 16"
      by (simp_all add: base64url_digit_eq_iff sextet_bounds)
    from chunk1 [OF eqs] 3 show ?thesis
      by simp
  qed (use "3.prems" in simp_all)
next
  case 4
  then show ?case
    by (cases ys rule: base64url_encode.cases) simp_all
qed

lemma cachePathFor_inj_on_strings: "cachePathFor s = cachePathFor t \<Longrightarrow> s = t"
proof -
  assume eq: "cachePathFor s = cachePathFor t"
  have "list_all (\<lambda>x. x < 256) (map (of_char :: char \<Rightarrow> nat) s)"
    "list_all (\<lambda>x. x < 256) (map (of_char :: char \<Rightarrow> nat) t)"
    by (simp_all add: list_all_iff)
  from base64url_encode_inj [OF this] eq have "map (of_char :: char \<Rightarrow> nat) s = map of_char t"
    by (simp add: cachePathFor_def)
  then show "s = t"
    by (simp add: inj_map_eq_map [OF inj_of_char])
qed

lemma base64url_digit_in_alphabet: "base64url_digit n \<in> set base64url_alphabet"
  by (simp add: base64url_digit_def length_alphabet)

lemma base64url_encode_alphabet: "set (base64url_encode xs) \<subseteq> set base64url_alphabet"
  by (induction xs rule: base64url_encode.induct) (simp_all add: base64url_digit_in_alphabet)

lemma alphabet_without_separators: "CHR ''/'' \<notin> set base64url_alphabet" "CHR 0x5C \<notin> set base64url_alphabet"
  by (simp_all add: base64url_alphabet_def)

lemma cachePathFor_alphabet: "set (cachePathFor s) \<subseteq> set base64url_alphabet"
  by (simp add: cachePathFor_def base64url_encode_alphabet)

text \<open>
  Claim C7. The cache path is a function of the server identity: equal identities have
  equal paths, distinct identities have distinct paths, and no path holds a path separator,
  the slash or the backslash.
\<close>

theorem cachePathFor_injective_and_safe:
  "(cachePathFor s1 = cachePathFor s2) = (s1 = s2) \<and>
   CHR ''/'' \<notin> set (cachePathFor s) \<and>
   CHR 0x5C \<notin> set (cachePathFor s)"
  using cachePathFor_inj_on_strings [of s1 s2] cachePathFor_alphabet [of s]
    alphabet_without_separators
  by blast

section \<open>The end-to-end scenario of the specification\<close>

lemma scenario_attach:
  "shouldAttachServerAuthHeaders example_URL (Some ''https://chat.example.com/api/v4/files/42'')
     ''https://chat.example.com'' = Inr True"
  by (simp add: shouldAttachServerAuthHeaders_def shouldAttachServerAuthHeaders_try_def
      new_URL_def example_URL_def startsWith_def)

lemma scenario_cachePath:
  "cachePathFor ''https://chat.example.com'' = ''aHR0cHM6Ly9jaGF0LmV4YW1wbGUuY29t''"
  by (simp add: cachePathFor_def base64url_digit_def base64url_alphabet_def)

lemma scenario:
  "ExpoImage (example_env\<lparr>useServerUrl := ''https://chat.example.com''\<rparr>)
      \<lparr>source = SourceObject (example_source ''https://chat.example.com/api/v4/files/42''),
       placeholder = PlaceholderUndefined, cachePolicy = None, id_prop = Some ''file-42''\<rparr> =
   Inr \<lparr>source = SourceObject
          \<lparr>uri = Some ''https://chat.example.com/api/v4/files/42'',
           headers = Some [''Authorization'' \<mapsto> ''Bearer T''],
           cacheKey = Some ''file-42'',
           cachePath = Some ''aHR0cHM6Ly9jaGF0LmV4YW1wbGUuY29t'',
           rest = Map.empty\<rparr>,
        placeholder = PlaceholderUndefined,
        cachePolicy = None\<rparr>"
  by (simp add: ExpoImage_def Let_def ExpoImage_source_def ExpoImage_placeholder_def example_env_def
      example_source_def source_field_def requestHeaders_memo_def truthy_def scenario_attach
      example_merge scenario_cachePath primaryCacheKey_def)

end
